theory Spec2Isabelle
  imports Main "HOL-Library.Word"
begin

unbundle bit_operations_syntax

section \<open>The timer driver of \<^verbatim>\<open>timer0.c\<close>\<close>

text \<open>
  The driver keeps two file-scope variables (\<^verbatim>\<open>clock_ticks\<close>, a \<^verbatim>\<open>uint32_t\<close>, and
  \<^verbatim>\<open>digit\<close>, a \<^verbatim>\<open>uint8_t\<close>) and programs the 8-bit I/O registers of timer/counter 0,
  of ports A and C, and the status register. The state of the model is a record of these
  variables and registers; every function of the file takes the state and returns the
  updated one. \<^verbatim>\<open>PORTC\<close> is part of the record although no statement of the file assigns
  it: the digit-select pin that \<^verbatim>\<open>init_timer0\<close> turns into an output belongs to it.
\<close>

record state =
  clock_ticks :: "32 word"
  digit :: "8 word"
  TCNT0 :: "8 word"
  OCR0A :: "8 word"
  TCCR0A :: "8 word"
  TCCR0B :: "8 word"
  TIMSK0 :: "8 word"
  TIFR0 :: "8 word"
  DDRA :: "8 word"
  DDRC :: "8 word"
  PORTA :: "8 word"
  PORTC :: "8 word"
  SREG :: "8 word"

text \<open>
  The variables are zero-initialised statics and the registers read zero after reset, so a
  program starts in \<open>reset_state\<close>.
\<close>

definition reset_state :: state where
  "reset_state = \<lparr>clock_ticks = 0, digit = 0, TCNT0 = 0, OCR0A = 0, TCCR0A = 0,
     TCCR0B = 0, TIMSK0 = 0, TIFR0 = 0, DDRA = 0, DDRC = 0, PORTA = 0, PORTC = 0,
     SREG = 0\<rparr>"

subsection \<open>Bit numbers and register semantics of the device\<close>

text \<open>
  The bit numbers are those of the device header behind \<^verbatim>\<open>avr/io.h\<close> for the
  ATmega324A; \<^verbatim>\<open>(1<<n)\<close> is \<open>BV n\<close>.
\<close>

definition WGM01 :: nat where "WGM01 = 1"
definition CS01 :: nat where "CS01 = 1"
definition CS00 :: nat where "CS00 = 0"
definition OCIE0A :: nat where "OCIE0A = 1"
definition OCF0A :: nat where "OCF0A = 1"
definition DDRC0 :: nat where "DDRC0 = 0"
definition SREG_I :: nat where "SREG_I = 7"

definition BV :: "nat \<Rightarrow> 8 word" where
  "BV n = push_bit n 1"

text \<open>
  \<^verbatim>\<open>bit_is_set(sfr, bit)\<close> expands to \<^verbatim>\<open>(sfr & (1<<bit))\<close>: it is the masked byte, not
  a truth value.
\<close>

definition bit_is_set :: "8 word \<Rightarrow> nat \<Rightarrow> 8 word" where
  "bit_is_set sfr b = sfr AND BV b"

text \<open>
  \<^verbatim>\<open>cli()\<close> and \<^verbatim>\<open>sei()\<close> clear and set the global interrupt flag, bit \<open>SREG_I\<close> of the
  status register. An interrupt is delivered only while the flag is set.
\<close>

definition cli :: "state \<Rightarrow> state" where
  "cli s = s\<lparr>SREG := SREG s AND NOT (BV SREG_I)\<rparr>"

definition sei :: "state \<Rightarrow> state" where
  "sei s = s\<lparr>SREG := SREG s OR BV SREG_I\<rparr>"

definition interrupts_enabled :: "state \<Rightarrow> bool" where
  "interrupts_enabled s = bit (SREG s) SREG_I"

text \<open>
  A store to the timer's flag register clears the flags whose bit is one in the stored
  byte and leaves the others as they are.
\<close>

definition store_TIFR0 :: "8 word \<Rightarrow> state \<Rightarrow> state" where
  "store_TIFR0 v s = s\<lparr>TIFR0 := TIFR0 s AND NOT v\<rparr>"

text \<open>
  The clock-select bits of \<^verbatim>\<open>TCCR0B\<close> (its low three bits) choose the divider of the
  timer's clock; zero stops the timer and 6 and 7 select an external clock.
\<close>

definition clock_divider :: "8 word \<Rightarrow> nat option" where
  "clock_divider tccr0b =
     (let cs = tccr0b AND 7 in
      if cs = 1 then Some 1
      else if cs = 2 then Some 8
      else if cs = 3 then Some 64
      else if cs = 4 then Some 256
      else if cs = 5 then Some 1024
      else None)"

subsection \<open>The pattern table\<close>

text \<open>
  \<^verbatim>\<open>uint8_t seven_seg[10] = {63,6,91, 79, 102, 109,125,7,127,111};\<close>
  C does not check the index of an array read. A read outside the ten entries is
  undefined behaviour; the model makes it an error value that carries the index.
\<close>

datatype error = OutOfBounds nat

definition seven_seg :: "8 word list" where
  "seven_seg = [63, 6, 91, 79, 102, 109, 125, 7, 127, 111]"

definition seven_seg_read :: "nat \<Rightarrow> error + 8 word" where
  "seven_seg_read i =
     (if i < length seven_seg then Inr (seven_seg ! i) else Inl (OutOfBounds i))"

subsection \<open>\<^verbatim>\<open>init_timer0\<close>\<close>

definition init_timer0 :: "state \<Rightarrow> state" where
  "init_timer0 s0 =
     (let s1 = s0\<lparr>clock_ticks := 0\<rparr>;
          s2 = s1\<lparr>TCNT0 := 0\<rparr>;
          s3 = s2\<lparr>OCR0A := 124\<rparr>;
          s4 = s3\<lparr>TCCR0A := BV WGM01\<rparr>;
          s5 = s4\<lparr>TCCR0B := BV CS01 OR BV CS00\<rparr>;
          s6 = s5\<lparr>TIMSK0 := TIMSK0 s5 OR BV OCIE0A\<rparr>;
          s7 = store_TIFR0 (TIFR0 s6 AND BV OCF0A) s6;
          s8 = s7\<lparr>DDRA := 0xFF\<rparr>;
          s9 = s8\<lparr>DDRC := BV DDRC0\<rparr>
      in s9\<lparr>digit := 0\<rparr>)"

subsection \<open>\<^verbatim>\<open>display_length\<close>\<close>

text \<open>
  \<^verbatim>\<open>void display_length(uint8_t snakeLength, uint8_t digit)\<close>: the second parameter has
  the name of the file-scope variable and hides it inside the body, so the two
  assignments to \<^verbatim>\<open>digit\<close> store into the parameter. \<open>display_length_body\<close> returns
  the state together with the final value of the parameter; \<open>display_length\<close> drops
  the parameter, as the return of a \<^verbatim>\<open>void\<close> function does.

  The operands of \<^verbatim>\<open>%\<close> and \<^verbatim>\<open>/\<close> are promoted to \<^verbatim>\<open>int\<close>, so the two indices are
  the remainder and the quotient of the unsigned value; \<^verbatim>\<open>1 - digit\<close> is truncated to
  eight bits by the assignment.
\<close>

definition display_length_body :: "state \<Rightarrow> 8 word \<Rightarrow> 8 word \<Rightarrow> error + (state \<times> 8 word)" where
  "display_length_body s snakeLength digit_param =
     (if digit_param = 0 then
        (case seven_seg_read (unat snakeLength mod 10) of
           Inl e \<Rightarrow> Inl e
         | Inr pattern \<Rightarrow> Inr (s\<lparr>PORTA := pattern\<rparr>, digit_param + 1))
      else
        (case seven_seg_read (unat snakeLength div 10) of
           Inl e \<Rightarrow> Inl e
         | Inr pattern \<Rightarrow> Inr (s\<lparr>PORTA := pattern\<rparr>, 1 - digit_param)))"

definition display_length :: "state \<Rightarrow> 8 word \<Rightarrow> 8 word \<Rightarrow> error + state" where
  "display_length s snakeLength digit_param =
     (case display_length_body s snakeLength digit_param of
        Inl e \<Rightarrow> Inl e
      | Inr (s', _) \<Rightarrow> Inr s')"

subsection \<open>The interrupt handler\<close>

text \<open>
  \<^verbatim>\<open>ISR(TIMER0_COMPA_vect)\<close> increments the counter and calls \<^verbatim>\<open>display_length\<close> with
  the value of \<^verbatim>\<open>get_snake_length()\<close> and the file-scope \<^verbatim>\<open>digit\<close>.
  \<^verbatim>\<open>get_snake_length\<close> belongs to the snake module; the value it returns at a firing is
  the first argument of the model. A sequence of firings is the list of these values,
  and stops at the first error.
\<close>

definition TIMER0_COMPA_vect :: "8 word \<Rightarrow> state \<Rightarrow> error + state" where
  "TIMER0_COMPA_vect snake_length s =
     (let s1 = s\<lparr>clock_ticks := clock_ticks s + 1\<rparr>
      in display_length s1 snake_length (digit s1))"

fun firings :: "8 word list \<Rightarrow> state \<Rightarrow> error + state" where
  "firings [] s = Inr s"
| "firings (snake_length # rest) s =
     (case TIMER0_COMPA_vect snake_length s of
        Inl e \<Rightarrow> Inl e
      | Inr s' \<Rightarrow> firings rest s')"

subsection \<open>\<^verbatim>\<open>get_clock_ticks\<close>\<close>

text \<open>
  The body of \<^verbatim>\<open>get_clock_ticks\<close> is a straight line of seven steps: save the masked
  interrupt flag in \<^verbatim>\<open>interrupts_were_on\<close>, \<^verbatim>\<open>cli()\<close>, the copy of the four bytes of
  \<^verbatim>\<open>clock_ticks\<close> into \<^verbatim>\<open>return_value\<close> (the processor loads one byte at a time, which
  is why the source disables interrupts: "so we can be sure that the interrupt doesn't
  fire when we've copied just a couple of bytes of the value"), and \<^verbatim>\<open>sei()\<close> if the
  saved byte is non-zero. A \<open>frame\<close> holds the label of the next step and the two
  locals. The locals are not initialised in the source, so the frame on entry holds
  arbitrary values for them.
\<close>

datatype label = Save_flag | Cli | Read0 | Read1 | Read2 | Read3 | Restore | Return

record frame =
  pc :: label
  interrupts_were_on :: "8 word"
  return_value :: "32 word"

definition entry_frame :: "8 word \<Rightarrow> 32 word \<Rightarrow> frame" where
  "entry_frame w r = \<lparr>pc = Save_flag, interrupts_were_on = w, return_value = r\<rparr>"

text \<open>
  \<open>byte_mask k\<close> has the eight bits of byte \<open>k\<close> set; \<open>copy_byte k src dst\<close> is
  \<open>dst\<close> with its byte \<open>k\<close> replaced by byte \<open>k\<close> of \<open>src\<close>.
\<close>

definition byte_mask :: "nat \<Rightarrow> 32 word" where
  "byte_mask k = push_bit (8 * k) (mask 8)"

definition copy_byte :: "nat \<Rightarrow> 32 word \<Rightarrow> 32 word \<Rightarrow> 32 word" where
  "copy_byte k src dst = (dst AND NOT (byte_mask k)) OR (src AND byte_mask k)"

definition get_clock_ticks_step :: "frame \<times> state \<Rightarrow> frame \<times> state" where
  "get_clock_ticks_step c =
     (case c of (f, s) \<Rightarrow>
       (case pc f of
          Save_flag \<Rightarrow> (f\<lparr>interrupts_were_on := bit_is_set (SREG s) SREG_I, pc := Cli\<rparr>, s)
        | Cli \<Rightarrow> (f\<lparr>pc := Read0\<rparr>, cli s)
        | Read0 \<Rightarrow>
            (f\<lparr>return_value := copy_byte 0 (clock_ticks s) (return_value f), pc := Read1\<rparr>, s)
        | Read1 \<Rightarrow>
            (f\<lparr>return_value := copy_byte 1 (clock_ticks s) (return_value f), pc := Read2\<rparr>, s)
        | Read2 \<Rightarrow>
            (f\<lparr>return_value := copy_byte 2 (clock_ticks s) (return_value f), pc := Read3\<rparr>, s)
        | Read3 \<Rightarrow>
            (f\<lparr>return_value := copy_byte 3 (clock_ticks s) (return_value f), pc := Restore\<rparr>, s)
        | Restore \<Rightarrow> (f\<lparr>pc := Return\<rparr>, if interrupts_were_on f \<noteq> 0 then sei s else s)
        | Return \<Rightarrow> (f, s)))"

text \<open>
  Without an interrupt in between, a call is the seven steps in a row, from the entry
  frame; it returns \<^verbatim>\<open>return_value\<close>, and the model returns the final state with it.
\<close>

definition get_clock_ticks :: "state \<Rightarrow> 32 word \<times> state" where
  "get_clock_ticks s =
     (case (get_clock_ticks_step ^^ 7) (entry_frame 0 0, s) of
        (f, s') \<Rightarrow> (return_value f, s'))"

text \<open>
  With interrupts: before each step the timer may request its interrupt. A request is
  \<open>Some v\<close>, with \<open>v\<close> the value that \<^verbatim>\<open>get_snake_length()\<close> would return to the handler;
  the handler runs only if the global interrupt flag is set at that moment, otherwise the
  step goes ahead without it. (The processor clears the flag on entry to the handler and
  sets it again on return, so the handler leaves the status register as it found it.)
  \<open>get_clock_ticks_irq\<close> runs one step of the body for each element of the list of
  requests and records, for each step, its label and the state in which it executes.
\<close>

fun deliver :: "8 word option \<Rightarrow> state \<Rightarrow> error + state" where
  "deliver None s = Inr s"
| "deliver (Some v) s = (if interrupts_enabled s then TIMER0_COMPA_vect v s else Inr s)"

fun get_clock_ticks_irq ::
  "8 word option list \<Rightarrow> frame \<times> state \<Rightarrow> error + ((frame \<times> state) \<times> (label \<times> state) list)" where
  "get_clock_ticks_irq [] c = Inr (c, [])"
| "get_clock_ticks_irq (r # rs) c =
     (case deliver r (snd c) of
        Inl e \<Rightarrow> Inl e
      | Inr s1 \<Rightarrow>
          (case get_clock_ticks_irq rs (get_clock_ticks_step (fst c, s1)) of
             Inl e \<Rightarrow> Inl e
           | Inr (c', trace) \<Rightarrow> Inr (c', (pc (fst c), s1) # trace)))"

section \<open>Properties\<close>

subsection \<open>Helper facts\<close>

lemma seven_seg_read_in_range:
  "i < 10 \<Longrightarrow> seven_seg_read i = Inr (seven_seg ! i)"
  by (simp add: seven_seg_read_def seven_seg_def)

lemma seven_seg_read_out_of_range:
  "10 \<le> i \<Longrightarrow> seven_seg_read i = Inl (OutOfBounds i)"
  by (simp add: seven_seg_read_def seven_seg_def)

lemma display_length_right:
  "display_length s v 0 = Inr (s\<lparr>PORTA := seven_seg ! (unat v mod 10)\<rparr>)"
  by (simp add: display_length_def display_length_body_def seven_seg_read_in_range)

lemma display_length_left:
  "d \<noteq> 0 \<Longrightarrow> unat v < 100 \<Longrightarrow>
   display_length s v d = Inr (s\<lparr>PORTA := seven_seg ! (unat v div 10)\<rparr>)"
  by (simp add: display_length_def display_length_body_def seven_seg_read_in_range
      less_mult_imp_div_less)

lemma display_length_left_overflow:
  "d \<noteq> 0 \<Longrightarrow> 100 \<le> unat v \<Longrightarrow>
   display_length s v d = Inl (OutOfBounds (unat v div 10))"
  by (simp add: display_length_def display_length_body_def seven_seg_read_out_of_range
      Suc_le_eq less_eq_div_iff_mult_less_eq)

lemma bit_is_set_nonzero_iff: "bit_is_set w n \<noteq> 0 \<longleftrightarrow> bit w n"
  by (simp add: bit_is_set_def BV_def and_exp_eq_0_iff_not_bit)

lemma set_after_clear: "bit w n \<Longrightarrow> (w AND NOT (BV n)) OR BV n = w"
  by (rule bit_eqI) (auto simp add: BV_def bit_simps)

lemma clear_of_clear: "\<not> bit w n \<Longrightarrow> w AND NOT (BV n) = w"
  by (rule bit_eqI) (auto simp add: BV_def bit_simps)

lemma cli_disables: "\<not> interrupts_enabled (cli s)"
  by (simp add: interrupts_enabled_def cli_def BV_def SREG_I_def bit_simps)

lemma bit_byte_mask: "bit (byte_mask k) n \<longleftrightarrow> n < 32 \<and> 8 * k \<le> n \<and> n < 8 * k + 8"
  by (auto simp add: byte_mask_def bit_simps)

lemma copy_all_bytes:
  "copy_byte 3 w (copy_byte 2 w (copy_byte 1 w (copy_byte 0 w r))) = w"
proof (rule bit_eqI)
  fix n
  assume "possible_bit TYPE(32 word) n"
  then have n: "n < 32" by (simp add: possible_bit_def)
  then consider "n < 8" | "8 \<le> n" "n < 16" | "16 \<le> n" "n < 24" | "24 \<le> n" "n < 32"
    by linarith
  then show "bit (copy_byte 3 w (copy_byte 2 w (copy_byte 1 w (copy_byte 0 w r)))) n = bit w n"
    by cases (simp_all add: copy_byte_def bit_simps bit_byte_mask)
qed

lemma restore_after_cli:
  "(if bit_is_set (SREG s) SREG_I \<noteq> 0 then sei (cli s) else cli s) = s"
  by (simp add: cli_def sei_def bit_is_set_nonzero_iff set_after_clear clear_of_clear)

lemma clock_ticks_cli: "clock_ticks (cli s) = clock_ticks s"
  by (simp add: cli_def)

lemma seven_steps: "(f ^^ 7) x = f (f (f (f (f (f (f x))))))"
  by (simp add: eval_nat_numeral)

lemma get_clock_ticks_eq: "get_clock_ticks s = (clock_ticks s, s)"
  by (simp add: get_clock_ticks_def seven_steps get_clock_ticks_step_def entry_frame_def
      copy_all_bytes[unfolded One_nat_def] restore_after_cli clock_ticks_cli)

lemma flag_clear: "w AND (NOT w OR NOT m) = w AND NOT (m :: 8 word)"
  by (rule bit_eqI) (auto simp add: bit_simps)

lemma store_TIFR0_masked:
  "store_TIFR0 (TIFR0 s AND m) s = s\<lparr>TIFR0 := TIFR0 s AND NOT m\<rparr>"
  by (simp add: store_TIFR0_def flag_clear)

lemma init_timer0_eq:
  "init_timer0 s = s\<lparr>clock_ticks := 0, TCNT0 := 0, OCR0A := 124, TCCR0A := 2,
     TCCR0B := 3, TIMSK0 := TIMSK0 s OR 2, TIFR0 := TIFR0 s AND NOT 2, DDRA := 255,
     DDRC := 1, digit := 0\<rparr>"
  by (simp add: init_timer0_def store_TIFR0_masked Let_def BV_def WGM01_def CS01_def
      CS00_def OCIE0A_def OCF0A_def DDRC0_def)

lemma display_length_body_cases:
  "display_length_body s v d =
     (if d = 0 then Inr (s\<lparr>PORTA := seven_seg ! (unat v mod 10)\<rparr>, 1)
      else if unat v < 100 then Inr (s\<lparr>PORTA := seven_seg ! (unat v div 10)\<rparr>, 1 - d)
      else Inl (OutOfBounds (unat v div 10)))"
  by (simp add: display_length_body_def seven_seg_read_in_range seven_seg_read_out_of_range
      less_mult_imp_div_less Suc_le_eq less_eq_div_iff_mult_less_eq)

lemma display_length_frame:
  "display_length s v d = Inr s' \<Longrightarrow> s' = s\<lparr>PORTA := PORTA s'\<rparr>"
  by (auto simp add: display_length_def display_length_body_cases split: if_splits)

lemma TIMER0_COMPA_vect_frame:
  "TIMER0_COMPA_vect v s = Inr s' \<Longrightarrow>
   s' = s\<lparr>clock_ticks := clock_ticks s + 1, PORTA := PORTA s'\<rparr>"
  by (auto simp add: TIMER0_COMPA_vect_def Let_def dest!: display_length_frame)

lemma TIMER0_COMPA_vect_right:
  "digit s = 0 \<Longrightarrow>
   TIMER0_COMPA_vect v s =
     Inr (s\<lparr>clock_ticks := clock_ticks s + 1, PORTA := seven_seg ! (unat v mod 10)\<rparr>)"
  by (simp add: TIMER0_COMPA_vect_def display_length_right)

lemma firings_right:
  "digit s = 0 \<Longrightarrow>
   \<exists>s'. firings vs s = Inr s' \<and> digit s' = 0 \<and>
        clock_ticks s' = clock_ticks s + of_nat (length vs)"
proof (induction vs arbitrary: s)
  case Nil
  then show ?case by simp
next
  case (Cons v vs)
  let ?s1 = "s\<lparr>clock_ticks := clock_ticks s + 1, PORTA := seven_seg ! (unat v mod 10)\<rparr>"
  have d: "digit ?s1 = 0" using Cons.prems by simp
  from Cons.IH[OF d] obtain s' where "firings vs ?s1 = Inr s'" "digit s' = 0"
    "clock_ticks s' = clock_ticks ?s1 + of_nat (length vs)" by blast
  then show ?case using Cons.prems by (simp add: TIMER0_COMPA_vect_right add.assoc)
qed

lemma display_length_PORTC: "display_length s v d = Inr s' \<Longrightarrow> PORTC s' = PORTC s"
  by (auto simp add: display_length_def display_length_body_cases split: if_splits)

lemma display_length_digit: "display_length s v d = Inr s' \<Longrightarrow> digit s' = digit s"
  by (auto simp add: display_length_def display_length_body_cases split: if_splits)

lemma TIMER0_COMPA_vect_PORTC: "TIMER0_COMPA_vect v s = Inr s' \<Longrightarrow> PORTC s' = PORTC s"
  by (auto simp add: TIMER0_COMPA_vect_def Let_def dest: display_length_PORTC)

lemma firings_PORTC: "firings vs s = Inr s' \<Longrightarrow> PORTC s' = PORTC s"
proof (induction vs arbitrary: s)
  case Nil
  then show ?case by simp
next
  case (Cons v vs)
  from Cons.prems obtain s1 where
    a: "TIMER0_COMPA_vect v s = Inr s1" and b: "firings vs s1 = Inr s'"
    by (auto split: sum.splits)
  from Cons.IH[OF b] TIMER0_COMPA_vect_PORTC[OF a] show ?case by simp
qed

lemma TIMER0_COMPA_vect_SREG: "TIMER0_COMPA_vect v s = Inr s' \<Longrightarrow> SREG s' = SREG s"
  by (auto simp add: TIMER0_COMPA_vect_def Let_def display_length_def
      display_length_body_cases split: if_splits)

lemma deliver_SREG: "deliver r s = Inr s' \<Longrightarrow> SREG s' = SREG s"
  by (cases r) (auto simp add: TIMER0_COMPA_vect_SREG split: if_splits)

lemma deliver_after_cli: "deliver r (cli s) = Inr (cli s)"
  by (cases r) (simp_all add: cli_disables)

lemma get_clock_ticks_irq_from_Cli:
  assumes "SREG s1 = SREG s0"
  shows "get_clock_ticks_irq [r2, r3, r4, r5, r6]
           (\<lparr>pc = Read0, interrupts_were_on = bit_is_set (SREG s0) SREG_I, return_value = r\<rparr>,
            cli s1) =
         Inr ((\<lparr>pc = Return, interrupts_were_on = bit_is_set (SREG s0) SREG_I,
                 return_value = clock_ticks s1\<rparr>, s1),
              [(Read0, cli s1), (Read1, cli s1), (Read2, cli s1), (Read3, cli s1),
               (Restore, cli s1)])"
  using restore_after_cli[of s1] assms
  by (simp add: deliver_after_cli get_clock_ticks_step_def copy_all_bytes[unfolded One_nat_def]
      clock_ticks_cli)

lemma get_clock_ticks_irq_eq:
  "get_clock_ticks_irq [r0, r1, r2, r3, r4, r5, r6] (entry_frame w r, s) =
     (case deliver r0 s of
        Inl e \<Rightarrow> Inl e
      | Inr s0 \<Rightarrow>
          (case deliver r1 s0 of
             Inl e \<Rightarrow> Inl e
           | Inr s1 \<Rightarrow>
               Inr ((\<lparr>pc = Return, interrupts_were_on = bit_is_set (SREG s0) SREG_I,
                       return_value = clock_ticks s1\<rparr>, s1),
                    [(Save_flag, s0), (Cli, s1), (Read0, cli s1), (Read1, cli s1),
                     (Read2, cli s1), (Read3, cli s1), (Restore, cli s1)])))"
proof (cases "deliver r0 s")
  case (Inl e)
  then show ?thesis by simp
next
  case r0: (Inr s0)
  show ?thesis
  proof (cases "deliver r1 s0")
    case (Inl e)
    with r0 show ?thesis by (simp add: entry_frame_def get_clock_ticks_step_def)
  next
    case r1: (Inr s1)
    from deliver_SREG[OF r1] have "SREG s1 = SREG s0" .
    from get_clock_ticks_irq_from_Cli[OF this, of r2 r3 r4 r5 r6 r] r0 r1
    show ?thesis by (simp add: entry_frame_def get_clock_ticks_step_def)
  qed
qed

subsection \<open>The digit multiplexer\<close>

text \<open>
  Claim C1 says that two calls of \<^verbatim>\<open>display_length\<close> in succession with the same value
  write the right digit's pattern and then the left digit's, and that every call moves the
  digit selector to the other state. The code does not do this. Evaluated after
  \<^verbatim>\<open>init_timer0\<close> at the value 42, with the file-scope \<^verbatim>\<open>digit\<close> as the second
  argument as the interrupt handler passes it: the first call writes the pattern 91 of the
  right digit 2 and leaves \<^verbatim>\<open>digit\<close> at 0; the second call starts from the same
  selector, writes 91 again and ends in the same state. The pattern 102 of the left digit 4
  is never written.
\<close>

theorem display_length_twice_same_digit:
  "digit (init_timer0 reset_state) = 0 \<and>
   display_length (init_timer0 reset_state) 42 (digit (init_timer0 reset_state)) =
     Inr ((init_timer0 reset_state)\<lparr>PORTA := 91\<rparr>) \<and>
   digit ((init_timer0 reset_state)\<lparr>PORTA := 91\<rparr>) = 0 \<and>
   display_length ((init_timer0 reset_state)\<lparr>PORTA := 91\<rparr>) 42
       (digit ((init_timer0 reset_state)\<lparr>PORTA := 91\<rparr>)) =
     Inr ((init_timer0 reset_state)\<lparr>PORTA := 91\<rparr>) \<and>
   seven_seg_read (unat (42 :: 8 word) mod 10) = Inr 91 \<and>
   seven_seg_read (unat (42 :: 8 word) div 10) = Inr 102"
  by (simp add: init_timer0_eq display_length_right seven_seg_read_def seven_seg_def)

text \<open>
  Claim C2 says that for every 8-bit value both table reads of \<^verbatim>\<open>display_length\<close> use
  an index from 0 to 9, and that for a value above 99 the left digit shows a
  \<open>(value / 10) mod 10\<close> pattern with no read out of range. At the value 100 with the
  left digit selected, the index is \<open>100 / 10 = 10\<close>, past the last entry of the table:
  the read is out of range, and the call does not write the pattern of digit
  \<open>10 mod 10 = 0\<close>.
\<close>

theorem display_length_left_index_out_of_range:
  "unat (100 :: 8 word) div 10 = 10 \<and>
   \<not> unat (100 :: 8 word) div 10 < length seven_seg \<and>
   seven_seg_read (unat (100 :: 8 word) div 10) = Inl (OutOfBounds 10) \<and>
   display_length reset_state 100 1 = Inl (OutOfBounds 10) \<and>
   display_length reset_state 100 1 \<noteq>
     Inr (reset_state\<lparr>PORTA := seven_seg ! ((unat (100 :: 8 word) div 10) mod 10)\<rparr>)"
  by (simp add: display_length_def display_length_body_def seven_seg_read_def seven_seg_def)

text \<open>
  Claim C2 as amended: for every 8-bit value the right-digit read uses the index
  \<open>value mod 10\<close>, which is inside the table, and the left-digit read uses the index
  \<open>value / 10\<close>, at most 25, which is inside the table exactly when the value is at
  most 99. A call with the right digit selected always writes the pattern at
  \<open>value mod 10\<close>; a call with the left digit selected writes the pattern at
  \<open>value / 10\<close> when the value is at most 99 and reads outside the table at index
  \<open>value / 10\<close> otherwise. No \<open>mod 10\<close> is applied to the left index.
\<close>

theorem display_length_index_ranges:
  "unat v mod 10 < length seven_seg \<and>
   (unat v div 10 < length seven_seg) = (v \<le> 99) \<and>
   unat v div 10 \<le> 25 \<and>
   display_length s v d =
     (if d = 0 then Inr (s\<lparr>PORTA := seven_seg ! (unat v mod 10)\<rparr>)
      else if v \<le> 99 then Inr (s\<lparr>PORTA := seven_seg ! (unat v div 10)\<rparr>)
      else Inl (OutOfBounds (unat v div 10)))"
proof -
  have le: "(v \<le> 99) = (unat v < 100)"
    by (simp add: word_le_nat_alt) arith
  have "unat v < 256" using unsigned_less[of v, where ?'a = nat] by simp
  then have b: "unat v div 10 \<le> 25" by arith
  have len: "length seven_seg = 10" by (simp add: seven_seg_def)
  have "(unat v div 10 < 10) = (unat v < 100)" by arith
  with b show ?thesis
    by (simp add: le len display_length_def display_length_body_cases)
qed

text \<open>
  Claim C4 says that for the value 37 the first call of the digit multiplexer, with the
  selector at RIGHT, writes the pattern 7 of digit 7 and the second call writes the pattern
  of digit 3 on the left-digit path. Evaluated on the code: the first firing of the handler
  after \<^verbatim>\<open>init_timer0\<close> writes 7, and the second firing, again called with
  \<^verbatim>\<open>digit = 0\<close>, writes 7 once more, not the pattern 79 of digit 3. The left-digit
  path itself would write 79 if it were entered with a non-zero second argument.
\<close>

theorem firings_37_twice:
  "TIMER0_COMPA_vect 37 (init_timer0 reset_state) =
     Inr ((init_timer0 reset_state)\<lparr>clock_ticks := 1, PORTA := 7\<rparr>) \<and>
   TIMER0_COMPA_vect 37 ((init_timer0 reset_state)\<lparr>clock_ticks := 1, PORTA := 7\<rparr>) =
     Inr ((init_timer0 reset_state)\<lparr>clock_ticks := 2, PORTA := 7\<rparr>) \<and>
   seven_seg_read 3 = Inr 79 \<and>
   display_length ((init_timer0 reset_state)\<lparr>clock_ticks := 1, PORTA := 7\<rparr>) 37 1 =
     Inr ((init_timer0 reset_state)\<lparr>clock_ticks := 1, PORTA := 79\<rparr>)"
  by (simp add: init_timer0_eq TIMER0_COMPA_vect_right display_length_left
      seven_seg_read_def seven_seg_def)

text \<open>
  Claim C6: the table maps each digit from 0 to 9 to its seven-segment encoding
  63, 6, 91, 79, 102, 109, 125, 7, 127, 111, and has ten entries.
\<close>

theorem seven_seg_table:
  "length seven_seg = 10 \<and>
   seven_seg_read 0 = Inr 63 \<and> seven_seg_read 1 = Inr 6 \<and> seven_seg_read 2 = Inr 91 \<and>
   seven_seg_read 3 = Inr 79 \<and> seven_seg_read 4 = Inr 102 \<and> seven_seg_read 5 = Inr 109 \<and>
   seven_seg_read 6 = Inr 125 \<and> seven_seg_read 7 = Inr 7 \<and> seven_seg_read 8 = Inr 127 \<and>
   seven_seg_read 9 = Inr 111"
  by (simp add: seven_seg_read_def seven_seg_def)

text \<open>
  Claim C9: a call of \<^verbatim>\<open>display_length\<close> leaves the file-scope \<^verbatim>\<open>digit\<close> as it
  was, since the toggle is stored in the parameter of the same name (which does become
  \<open>digit + 1\<close> or \<open>1 - digit\<close>). So after \<^verbatim>\<open>init_timer0\<close> and any sequence of
  firings of the handler \<^verbatim>\<open>digit\<close> is still 0, and the next firing takes the
  right-digit branch: it writes the pattern at \<open>value mod 10\<close>.
\<close>

theorem display_length_keeps_global_digit:
  "(display_length_body s v d = Inr (s', d') \<longrightarrow>
      digit s' = digit s \<and> d' = (if d = 0 then d + 1 else 1 - d)) \<and>
   (display_length s v d = Inr s'' \<longrightarrow> digit s'' = digit s) \<and>
   (\<exists>s1. firings vs (init_timer0 s0) = Inr s1 \<and> digit s1 = 0 \<and>
      TIMER0_COMPA_vect w s1 =
        Inr (s1\<lparr>clock_ticks := clock_ticks s1 + 1, PORTA := seven_seg ! (unat w mod 10)\<rparr>))"
proof -
  have d: "digit (init_timer0 s0) = 0" by (simp add: init_timer0_eq)
  from firings_right[OF d, of vs] obtain s1 where
    "firings vs (init_timer0 s0) = Inr s1" "digit s1 = 0" by blast
  then have "\<exists>s1. firings vs (init_timer0 s0) = Inr s1 \<and> digit s1 = 0 \<and>
      TIMER0_COMPA_vect w s1 =
        Inr (s1\<lparr>clock_ticks := clock_ticks s1 + 1, PORTA := seven_seg ! (unat w mod 10)\<rparr>)"
    by (simp add: TIMER0_COMPA_vect_right)
  moreover have "display_length_body s v d = Inr (s', d') \<longrightarrow>
      digit s' = digit s \<and> d' = (if d = 0 then d + 1 else 1 - d)"
    by (auto simp add: display_length_body_cases split: if_splits)
  moreover have "display_length s v d = Inr s'' \<longrightarrow> digit s'' = digit s"
    by (simp add: display_length_digit)
  ultimately show ?thesis by blast
qed

theorem display_length_keeps_global_digit_witness:
  "display_length_body reset_state 37 0 = Inr (reset_state\<lparr>PORTA := 7\<rparr>, 1) \<and>
   digit (reset_state\<lparr>PORTA := 7\<rparr>) = digit reset_state \<and>
   display_length reset_state 37 0 = Inr (reset_state\<lparr>PORTA := 7\<rparr>)"
  using display_length_keeps_global_digit
    [of reset_state 37 0 "reset_state\<lparr>PORTA := 7\<rparr>" 1 "reset_state\<lparr>PORTA := 7\<rparr>"]
  by (simp add: display_length_def display_length_body_def seven_seg_read_def seven_seg_def)

subsection \<open>Configuration\<close>

text \<open>
  Claim C7: after two calls of \<^verbatim>\<open>init_timer0\<close> in a row the tick counter is 0 and the
  digit selector is 0 (RIGHT); the second call changes nothing that the first call set.
\<close>

theorem init_timer0_twice:
  "clock_ticks (init_timer0 (init_timer0 s)) = 0 \<and>
   digit (init_timer0 (init_timer0 s)) = 0 \<and>
   init_timer0 (init_timer0 s) = init_timer0 s"
  by (simp add: init_timer0_eq or.assoc and.assoc)

text \<open>
  Claim C8: \<^verbatim>\<open>init_timer0\<close> writes 124 to the compare register and selects the clock
  divider 64; 124 is \<open>8000000 / 64 / 1000 - 1\<close>, so a compare match comes every
  \<open>125 * 64 = 8000\<close> cycles, one millisecond of an 8 MHz clock.
\<close>

theorem init_timer0_compare_value:
  "OCR0A (init_timer0 s) = 124 \<and>
   clock_divider (TCCR0B (init_timer0 s)) = Some 64 \<and>
   unat (OCR0A (init_timer0 s)) = 8000000 div 64 div 1000 - 1 \<and>
   (unat (OCR0A (init_timer0 s)) + 1) * 64 * 1000 = 8000000"
  by (simp add: init_timer0_eq clock_divider_def)

text \<open>
  Claim C10: \<^verbatim>\<open>init_timer0\<close> makes pin 0 of port C an output (\<^verbatim>\<open>DDRC = 1\<close>) and no
  function of the driver changes \<^verbatim>\<open>PORTC\<close>: not \<^verbatim>\<open>init_timer0\<close>, not
  \<^verbatim>\<open>get_clock_ticks\<close>, and \<^verbatim>\<open>display_length\<close> and the handler change only
  \<^verbatim>\<open>PORTA\<close> (the handler also the tick counter), whatever the number of firings.
\<close>

theorem PORTC_never_written:
  "DDRC (init_timer0 s) = 1 \<and>
   PORTC (init_timer0 s) = PORTC s \<and>
   PORTC (snd (get_clock_ticks s)) = PORTC s \<and>
   (display_length s v d = Inr s1 \<longrightarrow> s1 = s\<lparr>PORTA := PORTA s1\<rparr> \<and> PORTC s1 = PORTC s) \<and>
   (TIMER0_COMPA_vect v s = Inr s2 \<longrightarrow>
      s2 = s\<lparr>clock_ticks := clock_ticks s + 1, PORTA := PORTA s2\<rparr> \<and> PORTC s2 = PORTC s) \<and>
   (firings vs s = Inr s3 \<longrightarrow> PORTC s3 = PORTC s)"
proof -
  have "DDRC (init_timer0 s) = 1 \<and> PORTC (init_timer0 s) = PORTC s"
    by (simp add: init_timer0_eq)
  moreover have "PORTC (snd (get_clock_ticks s)) = PORTC s"
    by (simp add: get_clock_ticks_eq)
  moreover have "display_length s v d = Inr s1 \<longrightarrow>
      s1 = s\<lparr>PORTA := PORTA s1\<rparr> \<and> PORTC s1 = PORTC s"
    using display_length_frame display_length_PORTC by blast
  moreover have "TIMER0_COMPA_vect v s = Inr s2 \<longrightarrow>
      s2 = s\<lparr>clock_ticks := clock_ticks s + 1, PORTA := PORTA s2\<rparr> \<and> PORTC s2 = PORTC s"
    using TIMER0_COMPA_vect_frame TIMER0_COMPA_vect_PORTC by blast
  moreover have "firings vs s = Inr s3 \<longrightarrow> PORTC s3 = PORTC s"
    using firings_PORTC by blast
  ultimately show ?thesis by blast
qed

theorem PORTC_never_written_witness:
  "display_length reset_state 37 1 = Inr (reset_state\<lparr>PORTA := 79\<rparr>) \<and>
   PORTC (reset_state\<lparr>PORTA := 79\<rparr>) = PORTC reset_state \<and>
   TIMER0_COMPA_vect 37 reset_state = Inr (reset_state\<lparr>clock_ticks := 1, PORTA := 7\<rparr>) \<and>
   PORTC (reset_state\<lparr>clock_ticks := 1, PORTA := 7\<rparr>) = PORTC reset_state \<and>
   firings [37, 8] reset_state = Inr (reset_state\<lparr>clock_ticks := 2, PORTA := 127\<rparr>) \<and>
   PORTC (reset_state\<lparr>clock_ticks := 2, PORTA := 127\<rparr>) = PORTC reset_state"
  using PORTC_never_written [of reset_state 37 1 "reset_state\<lparr>PORTA := 79\<rparr>"
      "reset_state\<lparr>clock_ticks := 1, PORTA := 7\<rparr>" "[37, 8]"
      "reset_state\<lparr>clock_ticks := 2, PORTA := 127\<rparr>"]
  by (simp add: TIMER0_COMPA_vect_def display_length_def display_length_body_def
      seven_seg_read_def seven_seg_def reset_state_def)

subsection \<open>The tick counter\<close>

text \<open>
  Claim C3: after \<^verbatim>\<open>init_timer0\<close> and any sequence of \<open>N\<close> firings of the handler,
  whatever values the snake module supplies, \<^verbatim>\<open>get_clock_ticks\<close> returns
  \<open>N mod 2 ^ 32\<close>; a further firing succeeds and adds exactly one to the counter, in
  32-bit arithmetic that wraps around.
\<close>

theorem clock_ticks_after_firings:
  "\<exists>s1 s2. firings vs (init_timer0 s) = Inr s1 \<and>
      fst (get_clock_ticks s1) = of_nat (length vs) \<and>
      unat (fst (get_clock_ticks s1)) = length vs mod 2 ^ 32 \<and>
      TIMER0_COMPA_vect v s1 = Inr s2 \<and>
      clock_ticks s2 = clock_ticks s1 + 1"
proof -
  have d: "digit (init_timer0 s) = 0" by (simp add: init_timer0_eq)
  from firings_right[OF d, of vs] obtain s1 where
    f: "firings vs (init_timer0 s) = Inr s1" and d1: "digit s1 = 0" and
    c: "clock_ticks s1 = clock_ticks (init_timer0 s) + of_nat (length vs)" by blast
  from c have c0: "clock_ticks s1 = of_nat (length vs)" by (simp add: init_timer0_eq)
  have "unat (clock_ticks s1) = length vs mod 2 ^ 32"
    unfolding c0 by (simp add: unat_of_nat)
  with f c0 d1 show ?thesis
    by (simp add: get_clock_ticks_eq TIMER0_COMPA_vect_right)
qed

text \<open>
  Claim C5: \<^verbatim>\<open>get_clock_ticks\<close> suspends interrupt delivery for the duration of the
  counter read and returns with the interrupt flag as the caller had it. Whatever
  interrupts the timer requests before each of the seven steps of the body, the handler
  can run only before the flag is saved and before \<^verbatim>\<open>cli()\<close>; the four byte reads and the
  restore execute in one and the same state, in which interrupts are disabled, so the
  returned value is the counter as it is on return; and the call leaves the state reached
  by those handlers as it is, the status register being the caller's: interrupts that were
  off stay off, interrupts that were on are on again. Uninterrupted, the call returns the
  counter and the state it was given.
\<close>

theorem get_clock_ticks_masks_read_and_restores:
  "get_clock_ticks_irq [r0, r1, r2, r3, r4, r5, r6] (entry_frame w r, s) =
     (case deliver r0 s of
        Inl e \<Rightarrow> Inl e
      | Inr s0 \<Rightarrow>
          (case deliver r1 s0 of
             Inl e \<Rightarrow> Inl e
           | Inr s1 \<Rightarrow>
               Inr ((\<lparr>pc = Return, interrupts_were_on = bit_is_set (SREG s0) SREG_I,
                       return_value = clock_ticks s1\<rparr>, s1),
                    [(Save_flag, s0), (Cli, s1), (Read0, cli s1), (Read1, cli s1),
                     (Read2, cli s1), (Read3, cli s1), (Restore, cli s1)]))) \<and>
   \<not> interrupts_enabled (cli s1) \<and>
   (get_clock_ticks_irq [r0, r1, r2, r3, r4, r5, r6] (entry_frame w r, s) = Inr ((f, s'), trace) \<longrightarrow>
      pc f = Return \<and>
      return_value f = clock_ticks s' \<and>
      SREG s' = SREG s \<and>
      interrupts_enabled s' = interrupts_enabled s \<and>
      map fst trace = [Save_flag, Cli, Read0, Read1, Read2, Read3, Restore] \<and>
      list_all (\<lambda>st. \<not> interrupts_enabled st \<and> clock_ticks st = return_value f)
        (map snd (drop 2 trace))) \<and>
   get_clock_ticks s = (clock_ticks s, s)"
proof -
  have "pc f = Return \<and> return_value f = clock_ticks s' \<and> SREG s' = SREG s \<and>
      interrupts_enabled s' = interrupts_enabled s \<and>
      map fst trace = [Save_flag, Cli, Read0, Read1, Read2, Read3, Restore] \<and>
      list_all (\<lambda>st. \<not> interrupts_enabled st \<and> clock_ticks st = return_value f)
        (map snd (drop 2 trace))"
    if run: "get_clock_ticks_irq [r0, r1, r2, r3, r4, r5, r6] (entry_frame w r, s) =
               Inr ((f, s'), trace)"
  proof -
    from run obtain s0 where d0: "deliver r0 s = Inr s0"
      unfolding get_clock_ticks_irq_eq by (cases "deliver r0 s") simp_all
    from run d0 obtain s1 where d1: "deliver r1 s0 = Inr s1"
      unfolding get_clock_ticks_irq_eq by (cases "deliver r1 s0") simp_all
    from run d0 d1 have f: "f = \<lparr>pc = Return, interrupts_were_on = bit_is_set (SREG s0) SREG_I,
        return_value = clock_ticks s1\<rparr>" and s': "s' = s1" and
      t: "trace = [(Save_flag, s0), (Cli, s1), (Read0, cli s1), (Read1, cli s1),
                     (Read2, cli s1), (Read3, cli s1), (Restore, cli s1)]"
      unfolding get_clock_ticks_irq_eq by auto
    from deliver_SREG[OF d0] deliver_SREG[OF d1] have sreg: "SREG s1 = SREG s" by simp
    show ?thesis
      by (simp add: f s' t sreg interrupts_enabled_def cli_disables[unfolded interrupts_enabled_def]
          clock_ticks_cli)
  qed
  with get_clock_ticks_irq_eq[of r0 r1 r2 r3 r4 r5 r6 w r s] cli_disables[of s1]
    get_clock_ticks_eq[of s]
  show ?thesis by blast
qed

theorem get_clock_ticks_masks_read_and_restores_witness:
  "get_clock_ticks_irq [Some 37, Some 5, Some 9, Some 9, Some 9, Some 9, Some 9]
     (entry_frame 85 4660, reset_state\<lparr>SREG := 128\<rparr>) =
   Inr ((\<lparr>pc = Return, interrupts_were_on = 128, return_value = 2\<rparr>,
         reset_state\<lparr>SREG := 128, clock_ticks := 2, PORTA := 109\<rparr>),
        [(Save_flag, reset_state\<lparr>SREG := 128, clock_ticks := 1, PORTA := 7\<rparr>),
         (Cli, reset_state\<lparr>SREG := 128, clock_ticks := 2, PORTA := 109\<rparr>),
         (Read0, reset_state\<lparr>SREG := 0, clock_ticks := 2, PORTA := 109\<rparr>),
         (Read1, reset_state\<lparr>SREG := 0, clock_ticks := 2, PORTA := 109\<rparr>),
         (Read2, reset_state\<lparr>SREG := 0, clock_ticks := 2, PORTA := 109\<rparr>),
         (Read3, reset_state\<lparr>SREG := 0, clock_ticks := 2, PORTA := 109\<rparr>),
         (Restore, reset_state\<lparr>SREG := 0, clock_ticks := 2, PORTA := 109\<rparr>)]) \<and>
   return_value \<lparr>pc = Return, interrupts_were_on = 128, return_value = 2\<rparr> =
     clock_ticks (reset_state\<lparr>SREG := 128, clock_ticks := 2, PORTA := 109\<rparr>) \<and>
   SREG (reset_state\<lparr>SREG := 128, clock_ticks := 2, PORTA := 109\<rparr>) =
     SREG (reset_state\<lparr>SREG := 128\<rparr>) \<and>
   interrupts_enabled (reset_state\<lparr>SREG := 128\<rparr>)"
  using get_clock_ticks_masks_read_and_restores
    [of "Some 37" "Some 5" "Some 9" "Some 9" "Some 9" "Some 9" "Some 9" 85 4660
        "reset_state\<lparr>SREG := 128\<rparr>" reset_state
        "\<lparr>pc = Return, interrupts_were_on = 128, return_value = 2\<rparr>"
        "reset_state\<lparr>SREG := 128, clock_ticks := 2, PORTA := 109\<rparr>"
        "[(Save_flag, reset_state\<lparr>SREG := 128, clock_ticks := 1, PORTA := 7\<rparr>),
         (Cli, reset_state\<lparr>SREG := 128, clock_ticks := 2, PORTA := 109\<rparr>),
         (Read0, reset_state\<lparr>SREG := 0, clock_ticks := 2, PORTA := 109\<rparr>),
         (Read1, reset_state\<lparr>SREG := 0, clock_ticks := 2, PORTA := 109\<rparr>),
         (Read2, reset_state\<lparr>SREG := 0, clock_ticks := 2, PORTA := 109\<rparr>),
         (Read3, reset_state\<lparr>SREG := 0, clock_ticks := 2, PORTA := 109\<rparr>),
         (Restore, reset_state\<lparr>SREG := 0, clock_ticks := 2, PORTA := 109\<rparr>)]"]
  by (simp add: reset_state_def interrupts_enabled_def SREG_I_def cli_def BV_def bit_is_set_def
      TIMER0_COMPA_vect_def display_length_def display_length_body_def seven_seg_read_def
      seven_seg_def)

end
